theory Spec2Isabelle
  imports Main "HOL-Library.AList"
begin

section \<open>JavaScript values\<close>

text \<open>
  The proxy utilities of \<^verbatim>\<open>src/utils/requests.js\<close> handle untyped JavaScript values:
  status codes, bodies, option objects and thrown errors. A value is one of the
  constructors below. \<open>JNum n\<close> is an integer-valued number (HTTP status codes are such),
  \<open>JNaN\<close> the number NaN; an object is the list of its properties, each key occurring once.
\<close>

datatype jsval =
    JUndefined
  | JNull
  | JBool bool
  | JNum int
  | JNaN
  | JStr string
  | JArr "jsval list"
  | JObj "(string \<times> jsval) list"

type_synonym js_object = "(string \<times> jsval) list"

text \<open>JavaScript truthiness (\<open>ToBoolean\<close>): what \<^verbatim>\<open>if (v)\<close>, \<^verbatim>\<open>v || w\<close> and \<^verbatim>\<open>v ? a : b\<close> test.\<close>

fun js_truthy :: "jsval \<Rightarrow> bool" where
  "js_truthy JUndefined = False"
| "js_truthy JNull = False"
| "js_truthy (JBool b) = b"
| "js_truthy (JNum n) = (n \<noteq> 0)"
| "js_truthy JNaN = False"
| "js_truthy (JStr s) = (s \<noteq> [])"
| "js_truthy (JArr xs) = True"
| "js_truthy (JObj kvs) = True"

text \<open>\<^verbatim>\<open>a || b\<close>: the left operand when it is truthy, the right one otherwise.\<close>

definition js_or :: "jsval \<Rightarrow> jsval \<Rightarrow> jsval" where
  "js_or a b = (if js_truthy a then a else b)"

text \<open>Property read \<^verbatim>\<open>obj.k\<close>: a property the object does not have reads as \<^verbatim>\<open>undefined\<close>.\<close>

definition js_prop :: "js_object \<Rightarrow> string \<Rightarrow> jsval" where
  "js_prop obj k = (case map_of obj k of None \<Rightarrow> JUndefined | Some v \<Rightarrow> v)"

subsection \<open>Conversion to string\<close>

text \<open>
  A template literal \<^verbatim>\<open>`${v}`\<close> converts \<open>v\<close> with \<open>ToString\<close>: numbers print in decimal,
  an array joins its elements with commas (\<^verbatim>\<open>null\<close> and \<^verbatim>\<open>undefined\<close> elements print as
  nothing), a plain object prints as \<^verbatim>\<open>[object Object]\<close>.
\<close>

fun show_nat :: "nat \<Rightarrow> string" where
  "show_nat n =
     (if n < 10 then [''0123456789'' ! n]
      else show_nat (n div 10) @ [''0123456789'' ! (n mod 10)])"

definition show_int :: "int \<Rightarrow> string" where
  "show_int i = (if i < 0 then CHR ''-'' # show_nat (nat (- i)) else show_nat (nat i))"

fun join_comma :: "string list \<Rightarrow> string" where
  "join_comma [] = []"
| "join_comma [s] = s"
| "join_comma (s # t # ss) = s @ CHR '','' # join_comma (t # ss)"

fun js_toString :: "jsval \<Rightarrow> string" where
  "js_toString JUndefined = ''undefined''"
| "js_toString JNull = ''null''"
| "js_toString (JBool b) = (if b then ''true'' else ''false'')"
| "js_toString (JNum n) = show_int n"
| "js_toString JNaN = ''NaN''"
| "js_toString (JStr s) = s"
| "js_toString (JArr xs) =
     join_comma (map (\<lambda>v. if v = JUndefined \<or> v = JNull then [] else js_toString v) xs)"
| "js_toString (JObj kvs) = ''[object Object]''"

section \<open>Thrown errors, requests and observable effects\<close>

text \<open>
  Modelled from the spec: the class \<^verbatim>\<open>ApiError\<close> (\<^verbatim>\<open>src/error/api-error.js\<close> is not among
  the sources). A domain error carries a status code and a JSON payload; the two fields of
  \<open>ApiError\<close> are what \<^verbatim>\<open>err.statusCode\<close> and \<^verbatim>\<open>err.toJSON()\<close> evaluate to. Every other
  thrown value is \<open>Thrown\<close> with the properties that can be read from it
  (\<^verbatim>\<open>statusCode\<close>, \<^verbatim>\<open>error\<close>, \<^verbatim>\<open>message\<close>, \<^verbatim>\<open>stack\<close>, ...).
\<close>

datatype failure =
    ApiError jsval jsval
  | Thrown js_object

text \<open>
  The request options object built by \<^verbatim>\<open>defaultTargetOptions\<close>; \<open>http_method\<close> is its
  \<^verbatim>\<open>method\<close> field.
\<close>

record target_options =
  http_method :: jsval
  uri :: jsval
  headers :: jsval
  body :: jsval
  qs :: jsval

text \<open>
  What a handler does to the outside world, in the order it does it:
  \<^item> \<open>Outbound opts\<close>: the call \<^verbatim>\<open>baseRequest(opts)\<close>;
  \<^item> \<open>Respond s b\<close>: \<^verbatim>\<open>res.status(s).json(b)\<close>;
  \<^item> \<open>Next e\<close>: \<^verbatim>\<open>next(e)\<close>, handing \<open>e\<close> to Express's error-handling middleware;
  \<^item> \<open>LogError msg req stack\<close>: \<^verbatim>\<open>logger.error(msg, { req, stack })\<close>.
  The methods of Express's \<^verbatim>\<open>res\<close> and of the logger are taken to return normally.
\<close>

datatype event =
    Outbound target_options
  | Respond jsval jsval
  | Next failure
  | LogError string js_object jsval

fun responses :: "event list \<Rightarrow> (jsval \<times> jsval) list" where
  "responses [] = []"
| "responses (Respond s b # es) = (s, b) # responses es"
| "responses (e # es) = responses es"

fun outbound_calls :: "event list \<Rightarrow> target_options list" where
  "outbound_calls [] = []"
| "outbound_calls (Outbound d # es) = d # outbound_calls es"
| "outbound_calls (e # es) = outbound_calls es"

fun passed_to_next :: "event list \<Rightarrow> failure list" where
  "passed_to_next [] = []"
| "passed_to_next (Next f # es) = f # passed_to_next es"
| "passed_to_next (e # es) = passed_to_next es"

fun log_entries :: "event list \<Rightarrow> (string \<times> js_object \<times> jsval) list" where
  "log_entries [] = []"
| "log_entries (LogError m r s # es) = (m, r, s) # log_entries es"
| "log_entries (e # es) = log_entries es"

section \<open>lodash's \<^verbatim>\<open>_.extend\<close>\<close>

text \<open>
  \<^verbatim>\<open>_.extend(object, source)\<close> assigns every enumerable property of \<open>source\<close> to
  \<open>object\<close>, one after the other, and returns \<open>object\<close>. A string or an array has its
  indices as enumerable properties; numbers, booleans, \<^verbatim>\<open>null\<close> and \<^verbatim>\<open>undefined\<close> have none.
\<close>

definition indexed :: "jsval list \<Rightarrow> js_object" where
  "indexed vs = zip (map show_nat [0 ..< length vs]) vs"

fun enumerable :: "jsval \<Rightarrow> js_object" where
  "enumerable (JObj kvs) = kvs"
| "enumerable (JArr xs) = indexed xs"
| "enumerable (JStr s) = indexed (map (\<lambda>c. JStr [c]) s)"
| "enumerable v = []"

definition assign :: "js_object \<Rightarrow> string \<times> jsval \<Rightarrow> js_object" where
  "assign obj kv = AList.update (fst kv) (snd kv) obj"

definition extend :: "js_object \<Rightarrow> jsval \<Rightarrow> js_object" where
  "extend object source = foldl assign object (enumerable source)"

section \<open>The error resolver\<close>

text \<open>The first argument of \<^verbatim>\<open>_.extend\<close> in \<^verbatim>\<open>resolveError\<close>: the defaults of the options.\<close>

definition default_opts :: js_object where
  "default_opts =
     [(''unknownErrorMessage'', JStr ''Internal Server Error''),
      (''log'', JBool False),
      (''displayErrorReason'', JBool False)]"

text \<open>\<^verbatim>\<open>const opts = _.extend({...}, options || {})\<close>\<close>

definition effective_opts :: "jsval \<Rightarrow> js_object" where
  "effective_opts options = extend default_opts (js_or options (JObj []))"

text \<open>The template literal \<^verbatim>\<open>`${opts.unknownErrorMessage}. Reason: ${err.message}`\<close>.\<close>

definition with_reason :: "jsval \<Rightarrow> jsval \<Rightarrow> string" where
  "with_reason unknownErrorMessage message =
     js_toString unknownErrorMessage @ ''. Reason: '' @ js_toString message"

text \<open>
  \<^verbatim>\<open>resolveError(err, req, res, options)\<close>. The response object \<open>res\<close> is the only one the
  function writes to, so it is left implicit in the \<open>Respond\<close> event.
\<close>

definition resolveError :: "failure \<Rightarrow> js_object \<Rightarrow> jsval \<Rightarrow> event list" where
  "resolveError err req options =
     (let opts = effective_opts options in
      case err of
        ApiError statusCode json \<Rightarrow> [Respond statusCode json]
      | Thrown e \<Rightarrow>
          if js_truthy (js_prop e ''statusCode'') then
            [Respond (js_prop e ''statusCode'') (js_prop e ''error'')]
          else
            (if js_truthy (js_prop opts ''log'')
             then [LogError (with_reason (js_prop opts ''unknownErrorMessage'') (js_prop e ''message''))
                            req (js_prop e ''stack'')]
             else []) @
            [Respond (JNum 500)
               (JObj [(''message'',
                  JStr (if js_truthy (js_prop opts ''displayErrorReason'')
                        then with_reason (js_prop opts ''unknownErrorMessage'') (js_prop e ''message'')
                        else js_toString (js_prop opts ''unknownErrorMessage'')))])])"

text \<open>The two fixed profiles; \<^verbatim>\<open>next\<close> is not used by either.\<close>

definition developmentErrorHandler :: "failure \<Rightarrow> js_object \<Rightarrow> event list" where
  "developmentErrorHandler err req =
     resolveError err req
       (JObj [(''log'', JBool True), (''req'', JObj req), (''displayErrorReason'', JBool True)])"

definition productionErrorHandler :: "failure \<Rightarrow> js_object \<Rightarrow> event list" where
  "productionErrorHandler err req =
     resolveError err req (JObj [(''log'', JBool True), (''req'', JObj req)])"

text \<open>
  The loose comparison \<^verbatim>\<open>environment == 'localhost'\<close>. A string is compared as it is; an
  array or object is first converted to a string; a number or boolean is compared with
  the number that \<^verbatim>\<open>'localhost'\<close> converts to, which is NaN and equals nothing;
  \<^verbatim>\<open>null\<close> and \<^verbatim>\<open>undefined\<close> equal only each other.
\<close>

fun eq_localhost :: "jsval \<Rightarrow> bool" where
  "eq_localhost (JStr s) = (s = ''localhost'')"
| "eq_localhost (JArr xs) = (js_toString (JArr xs) = ''localhost'')"
| "eq_localhost (JObj kvs) = (js_toString (JObj kvs) = ''localhost'')"
| "eq_localhost v = False"

definition defaultErrorHandler :: "jsval \<Rightarrow> failure \<Rightarrow> js_object \<Rightarrow> event list" where
  "defaultErrorHandler environment =
     (if eq_localhost environment then developmentErrorHandler else productionErrorHandler)"

section \<open>The proxy forwarder\<close>

text \<open>
  \<^verbatim>\<open>resolveDefault(requestPromise, res)\<close>: the promise has either been rejected with a
  failure (\<open>Inl\<close>) or fulfilled with a response object (\<open>Inr\<close>). The \<^verbatim>\<open>then\<close> callback runs
  only on fulfilment; a rejection is the rejection of the returned promise.
\<close>

definition resolveDefault :: "failure + js_object \<Rightarrow> failure + event list" where
  "resolveDefault requestPromise =
     (case requestPromise of
        Inl err \<Rightarrow> Inl err
      | Inr response \<Rightarrow> Inr [Respond (js_prop response ''statusCode'') (js_prop response ''body'')])"

definition defaultTargetOptions :: "js_object \<Rightarrow> jsval \<Rightarrow> target_options" where
  "defaultTargetOptions req uri' =
     \<lparr> http_method = js_prop req ''method'',
       uri = js_or uri' (js_prop req ''originalUrl''),
       headers = js_prop req ''passedHeaders'',
       body = js_prop req ''body'',
       qs = js_prop req ''query'' \<rparr>"

text \<open>
  \<^verbatim>\<open>defaultProxyRequest(baseRequest, uri)(req, res, next)\<close>. Awaiting
  \<^verbatim>\<open>baseRequest(options)\<close> either throws a failure (\<open>Inl\<close>) or yields the backend's response
  object (\<open>Inr\<close>).
\<close>

definition defaultProxyRequest ::
  "(target_options \<Rightarrow> failure + js_object) \<Rightarrow> jsval \<Rightarrow> js_object \<Rightarrow> event list" where
  "defaultProxyRequest baseRequest uri' req =
     (let options = defaultTargetOptions req uri' in
      Outbound options #
      (case baseRequest options of
         Inr response \<Rightarrow> [Respond (js_prop response ''statusCode'') (js_prop response ''body'')]
       | Inl err \<Rightarrow> [Next err]))"

section \<open>Vocabulary of the statements\<close>

text \<open>The value of field \<open>k\<close> in an options object, or \<open>d\<close> when the object omits it.\<close>

definition supplied_or :: "js_object \<Rightarrow> string \<Rightarrow> jsval \<Rightarrow> jsval" where
  "supplied_or kvs k d = (case map_of kvs k of Some v \<Rightarrow> v | None \<Rightarrow> d)"

text \<open>The generic message in effect, \<^verbatim>\<open>`${opts.unknownErrorMessage}`\<close>.\<close>

definition generic_message :: "jsval \<Rightarrow> string" where
  "generic_message options =
     js_toString (js_prop (effective_opts options) ''unknownErrorMessage'')"

text \<open>The reason text of a failure, \<^verbatim>\<open>`${err.message}`\<close>.\<close>

definition reason_text :: "js_object \<Rightarrow> string" where
  "reason_text e = js_toString (js_prop e ''message'')"

section \<open>Properties of \<^verbatim>\<open>_.extend\<close> and of the effective options\<close>

lemma map_of_assign: "map_of (assign obj kv) = (map_of obj)(fst kv \<mapsto> snd kv)"
  by (simp add: assign_def update_conv')

text \<open>Assigning the entries from left to right: the last entry for a key wins.\<close>

lemma map_of_foldl_assign:
  "map_of (foldl assign obj kvs) k =
     (case map_of (rev kvs) k of Some v \<Rightarrow> Some v | None \<Rightarrow> map_of obj k)"
proof (induction kvs arbitrary: obj)
  case Nil
  show ?case by simp
next
  case (Cons kv kvs)
  show ?case
    by (simp add: Cons.IH map_of_assign map_add_def split: option.splits)
qed

lemma map_of_rev_distinct:
  "distinct (map fst kvs) \<Longrightarrow> map_of (rev kvs) = map_of kvs"
  by (simp add: distinct_map map_of_inject_set)

lemma js_prop_extend_object:
  assumes "distinct (map fst kvs)"
  shows "js_prop (extend obj (JObj kvs)) k = supplied_or kvs k (js_prop obj k)"
  using assms
  by (simp add: js_prop_def extend_def supplied_or_def map_of_foldl_assign map_of_rev_distinct
           split: option.splits)

lemma effective_opts_falsy:
  "\<not> js_truthy options \<Longrightarrow> effective_opts options = default_opts"
  by (simp add: effective_opts_def js_or_def extend_def)

lemma effective_opts_object:
  "effective_opts (JObj kvs) = extend default_opts (JObj kvs)"
  by (simp add: effective_opts_def js_or_def)

lemma js_prop_effective_opts_object:
  assumes "distinct (map fst kvs)"
  shows "js_prop (effective_opts (JObj kvs)) k = supplied_or kvs k (js_prop default_opts k)"
  by (simp add: effective_opts_object js_prop_extend_object [OF assms])

lemma js_prop_default_opts:
  "js_prop default_opts ''unknownErrorMessage'' = JStr ''Internal Server Error''"
  "js_prop default_opts ''log'' = JBool False"
  "js_prop default_opts ''displayErrorReason'' = JBool False"
  by (simp_all add: js_prop_def default_opts_def)

lemma complete_opts:
  "effective_opts (JObj [(''unknownErrorMessage'', m), (''log'', l), (''displayErrorReason'', d)])
     = [(''unknownErrorMessage'', m), (''log'', l), (''displayErrorReason'', d)]"
  by (simp add: effective_opts_def js_or_def extend_def assign_def default_opts_def)

lemma js_prop_complete:
  "js_prop [(''unknownErrorMessage'', m), (''log'', l), (''displayErrorReason'', d)]
     ''unknownErrorMessage'' = m"
  "js_prop [(''unknownErrorMessage'', m), (''log'', l), (''displayErrorReason'', d)] ''log'' = l"
  "js_prop [(''unknownErrorMessage'', m), (''log'', l), (''displayErrorReason'', d)]
     ''displayErrorReason'' = d"
  by (simp_all add: js_prop_def)

lemma development_opts:
  "effective_opts (JObj [(''log'', JBool True), (''req'', r), (''displayErrorReason'', JBool True)])
     = [(''unknownErrorMessage'', JStr ''Internal Server Error''), (''log'', JBool True),
        (''displayErrorReason'', JBool True), (''req'', r)]"
  by (simp add: effective_opts_def js_or_def extend_def assign_def default_opts_def)

lemma production_opts:
  "effective_opts (JObj [(''log'', JBool True), (''req'', r)])
     = [(''unknownErrorMessage'', JStr ''Internal Server Error''), (''log'', JBool True),
        (''displayErrorReason'', JBool False), (''req'', r)]"
  by (simp add: effective_opts_def js_or_def extend_def assign_def default_opts_def)

section \<open>The three branches of \<^verbatim>\<open>resolveError\<close>\<close>

text \<open>\<^verbatim>\<open>resolveError\<close> reads its options only through the three recognised fields.\<close>

lemma resolveError_reads_three_fields:
  assumes "js_prop (effective_opts a) ''unknownErrorMessage'' =
           js_prop (effective_opts b) ''unknownErrorMessage''"
    and "js_prop (effective_opts a) ''log'' = js_prop (effective_opts b) ''log''"
    and "js_prop (effective_opts a) ''displayErrorReason'' =
         js_prop (effective_opts b) ''displayErrorReason''"
  shows "resolveError err req a = resolveError err req b"
  using assms by (simp add: resolveError_def Let_def split: failure.splits)

lemma resolveError_ApiError:
  "resolveError (ApiError c p) req options = [Respond c p]"
  by (simp add: resolveError_def Let_def)

lemma resolveError_upstream:
  "js_truthy (js_prop e ''statusCode'') \<Longrightarrow>
   resolveError (Thrown e) req options =
     [Respond (js_prop e ''statusCode'') (js_prop e ''error'')]"
  by (simp add: resolveError_def Let_def)

lemma resolveError_unclassified:
  "\<not> js_truthy (js_prop e ''statusCode'') \<Longrightarrow>
   resolveError (Thrown e) req options =
     (if js_truthy (js_prop (effective_opts options) ''log'')
      then [LogError (generic_message options @ ''. Reason: '' @ reason_text e)
                     req (js_prop e ''stack'')]
      else []) @
     [Respond (JNum 500)
        (JObj [(''message'',
           JStr (generic_message options @
                 (if js_truthy (js_prop (effective_opts options) ''displayErrorReason'')
                  then ''. Reason: '' @ reason_text e else [])))])]"
  by (simp add: resolveError_def Let_def with_reason_def generic_message_def reason_text_def)

section \<open>Properties of the forwarder and of the error resolver\<close>

text \<open>
  C1. When the backend's response object has status code \<open>S\<close> and body \<open>B\<close>, the proxy
  handler \<^verbatim>\<open>defaultProxyRequest\<close> issues the outbound call and then writes exactly one
  response, with status \<open>S\<close> and body \<open>B\<close>; \<^verbatim>\<open>resolveDefault\<close> on a promise fulfilled with
  that response writes the same. Neither value is transformed.
\<close>

theorem proxy_relays_backend_response:
  assumes "js_prop response ''statusCode'' = S" and "js_prop response ''body'' = B"
  shows "(baseRequest (defaultTargetOptions req u) = Inr response \<longrightarrow>
            defaultProxyRequest baseRequest u req =
              [Outbound (defaultTargetOptions req u), Respond S B])
         \<and> resolveDefault (Inr response) = Inr [Respond S B]"
  using assms by (simp add: defaultProxyRequest_def resolveDefault_def Let_def)

theorem proxy_relays_backend_response_witness:
  "defaultProxyRequest
     (\<lambda>opts. Inr [(''statusCode'', JNum 200),
                   (''body'', JObj [(''tags'', JArr [JStr ''a'', JStr ''b''])])])
     JUndefined [(''method'', JStr ''GET''), (''originalUrl'', JStr ''/tags'')] =
     [Outbound \<lparr>http_method = JStr ''GET'', uri = JStr ''/tags'', headers = JUndefined,
                body = JUndefined, qs = JUndefined\<rparr>,
      Respond (JNum 200) (JObj [(''tags'', JArr [JStr ''a'', JStr ''b''])])]
   \<and> resolveDefault
       (Inr [(''statusCode'', JNum 200),
             (''body'', JObj [(''tags'', JArr [JStr ''a'', JStr ''b''])])]) =
     Inr [Respond (JNum 200) (JObj [(''tags'', JArr [JStr ''a'', JStr ''b''])])]"
  using proxy_relays_backend_response
    [of "[(''statusCode'', JNum 200), (''body'', JObj [(''tags'', JArr [JStr ''a'', JStr ''b''])])]"
        "JNum 200" "JObj [(''tags'', JArr [JStr ''a'', JStr ''b''])]"
        "\<lambda>opts. Inr [(''statusCode'', JNum 200),
                      (''body'', JObj [(''tags'', JArr [JStr ''a'', JStr ''b''])])]"
        "[(''method'', JStr ''GET''), (''originalUrl'', JStr ''/tags'')]" JUndefined]
  by (simp add: js_prop_def defaultTargetOptions_def js_or_def)

text \<open>
  C2. For a domain error (an \<^verbatim>\<open>ApiError\<close>) whose status code is \<open>C\<close> and whose
  \<^verbatim>\<open>toJSON()\<close> payload is \<open>P\<close>, \<^verbatim>\<open>resolveError\<close> responds with status \<open>C\<close> and body \<open>P\<close>
  and does nothing else, whatever the options are.
\<close>

theorem resolveError_relays_domain_error:
  "resolveError (ApiError C P) req options = [Respond C P]
   \<and> responses (resolveError (ApiError C P) req options) = [(C, P)]
   \<and> log_entries (resolveError (ApiError C P) req options) = []"
  by (simp add: resolveError_ApiError)

theorem resolveError_relays_domain_error_witness:
  "resolveError (ApiError (JNum 404) (JObj [(''message'', JStr ''Tag not found'')])) []
     (JObj [(''log'', JBool True), (''displayErrorReason'', JBool True)]) =
     [Respond (JNum 404) (JObj [(''message'', JStr ''Tag not found'')])]"
  using resolveError_relays_domain_error
    [of "JNum 404" "JObj [(''message'', JStr ''Tag not found'')]" "[]"
        "JObj [(''log'', JBool True), (''displayErrorReason'', JBool True)]"]
  by simp

text \<open>
  C3. For a failure that is not a domain error and has no (truthy) status code,
  \<^verbatim>\<open>resolveError\<close> responds with status 500 and the body \<^verbatim>\<open>{message: m}\<close>, where \<open>m\<close> is the
  generic message followed by \<^verbatim>\<open>. Reason: \<close> and the failure's reason text when
  \<^verbatim>\<open>displayErrorReason\<close> is in effect, and the generic message alone when it is not. When
  \<^verbatim>\<open>log\<close> is in effect, one log entry with the generic message, the reason, the request
  and the stack trace is recorded first; otherwise nothing is logged.
\<close>

theorem resolveError_unclassified_failure:
  assumes "\<not> js_truthy (js_prop e ''statusCode'')"
  shows "resolveError (Thrown e) req options =
     (if js_truthy (js_prop (effective_opts options) ''log'')
      then [LogError (generic_message options @ ''. Reason: '' @ reason_text e)
                     req (js_prop e ''stack'')]
      else []) @
     [Respond (JNum 500)
        (JObj [(''message'',
           JStr (if js_truthy (js_prop (effective_opts options) ''displayErrorReason'')
                 then generic_message options @ ''. Reason: '' @ reason_text e
                 else generic_message options))])]"
  using resolveError_unclassified [OF assms, of req options] by simp

theorem resolveError_unclassified_failure_witness:
  "resolveError (Thrown [(''message'', JStr ''ECONNREFUSED''), (''stack'', JStr ''at connect'')])
     [(''originalUrl'', JStr ''/tags'')]
     (JObj [(''log'', JBool True), (''displayErrorReason'', JBool True)]) =
     [LogError ''Internal Server Error. Reason: ECONNREFUSED''
        [(''originalUrl'', JStr ''/tags'')] (JStr ''at connect''),
      Respond (JNum 500)
        (JObj [(''message'', JStr ''Internal Server Error. Reason: ECONNREFUSED'')])]"
  using resolveError_unclassified_failure
    [of "[(''message'', JStr ''ECONNREFUSED''), (''stack'', JStr ''at connect'')]"
        "[(''originalUrl'', JStr ''/tags'')]"
        "JObj [(''log'', JBool True), (''displayErrorReason'', JBool True)]"]
  by (simp add: js_prop_def effective_opts_def js_or_def extend_def assign_def default_opts_def
        generic_message_def reason_text_def)

text \<open>
  C4. For a failure that is not a domain error and carries a status code (a truthy
  \<^verbatim>\<open>statusCode\<close>, which every HTTP status code is), \<^verbatim>\<open>resolveError\<close> responds with that
  status code and the failure's \<^verbatim>\<open>error\<close> payload, untransformed, and does nothing else.
\<close>

theorem resolveError_relays_upstream_error:
  assumes "js_truthy (js_prop e ''statusCode'')"
  shows "resolveError (Thrown e) req options =
           [Respond (js_prop e ''statusCode'') (js_prop e ''error'')]"
  using assms by (rule resolveError_upstream)

theorem resolveError_relays_upstream_error_witness:
  "resolveError
     (Thrown [(''statusCode'', JNum 404), (''error'', JObj [(''code'', JStr ''NOT_FOUND'')]),
              (''message'', JStr ''404 - not found'')])
     [] JUndefined =
     [Respond (JNum 404) (JObj [(''code'', JStr ''NOT_FOUND'')])]"
  using resolveError_relays_upstream_error
    [of "[(''statusCode'', JNum 404), (''error'', JObj [(''code'', JStr ''NOT_FOUND'')]),
          (''message'', JStr ''404 - not found'')]" "[]" JUndefined]
  by (simp add: js_prop_def)

text \<open>
  C5. With no URI override, \<^verbatim>\<open>defaultTargetOptions\<close> copies method, passed headers, body
  and query from the inbound request and targets the request's original URL. A supplied
  (truthy, so non-empty) override replaces the target URI and leaves every other field as
  it is. A falsy override, such as the empty string, is the same as no override.
\<close>

theorem defaultTargetOptions_descriptor:
  "defaultTargetOptions req JUndefined =
     \<lparr> http_method = js_prop req ''method'',
       uri = js_prop req ''originalUrl'',
       headers = js_prop req ''passedHeaders'',
       body = js_prop req ''body'',
       qs = js_prop req ''query'' \<rparr>
   \<and> (js_truthy u \<longrightarrow>
        defaultTargetOptions req u = (defaultTargetOptions req JUndefined) \<lparr> uri := u \<rparr>)
   \<and> (\<not> js_truthy u \<longrightarrow> defaultTargetOptions req u = defaultTargetOptions req JUndefined)"
  by (simp add: defaultTargetOptions_def js_or_def)

theorem defaultTargetOptions_descriptor_witness:
  "defaultTargetOptions
     [(''method'', JStr ''POST''), (''originalUrl'', JStr ''/tags?limit=5''),
      (''passedHeaders'', JObj [(''authorization'', JStr ''Bearer t'')]),
      (''body'', JObj [(''name'', JStr ''a'')]), (''query'', JObj [(''limit'', JStr ''5'')])]
     (JStr ''/v2/tags'') =
     \<lparr> http_method = JStr ''POST'', uri = JStr ''/v2/tags'',
       headers = JObj [(''authorization'', JStr ''Bearer t'')],
       body = JObj [(''name'', JStr ''a'')], qs = JObj [(''limit'', JStr ''5'')] \<rparr>
   \<and> defaultTargetOptions
     [(''method'', JStr ''POST''), (''originalUrl'', JStr ''/tags?limit=5''),
      (''passedHeaders'', JObj [(''authorization'', JStr ''Bearer t'')]),
      (''body'', JObj [(''name'', JStr ''a'')]), (''query'', JObj [(''limit'', JStr ''5'')])]
     JUndefined =
     \<lparr> http_method = JStr ''POST'', uri = JStr ''/tags?limit=5'',
       headers = JObj [(''authorization'', JStr ''Bearer t'')],
       body = JObj [(''name'', JStr ''a'')], qs = JObj [(''limit'', JStr ''5'')] \<rparr>"
  using defaultTargetOptions_descriptor
    [of "[(''method'', JStr ''POST''), (''originalUrl'', JStr ''/tags?limit=5''),
          (''passedHeaders'', JObj [(''authorization'', JStr ''Bearer t'')]),
          (''body'', JObj [(''name'', JStr ''a'')]), (''query'', JObj [(''limit'', JStr ''5'')])]"
        "JStr ''/v2/tags''"]
  by (simp add: js_prop_def)

text \<open>
  C6, as amended. \<^verbatim>\<open>defaultErrorHandler\<close> chooses between two fixed profiles from the
  environment name alone: the name \<^verbatim>\<open>localhost\<close> selects the verbose profile and every other
  name, \<^verbatim>\<open>development\<close> included, the terse one. The verbose profile is \<^verbatim>\<open>resolveError\<close>
  with logging on and the reason displayed, the terse one with logging on and the reason
  not displayed; on an unclassified failure both record the same log entry, and only the
  verbose one puts the reason in the response.
\<close>

theorem defaultErrorHandler_selects_profile:
  "defaultErrorHandler (JStr name) =
     (if name = ''localhost'' then developmentErrorHandler else productionErrorHandler)
   \<and> developmentErrorHandler err req =
       resolveError err req
         (JObj [(''unknownErrorMessage'', JStr ''Internal Server Error''),
                (''log'', JBool True), (''displayErrorReason'', JBool True)])
   \<and> productionErrorHandler err req =
       resolveError err req
         (JObj [(''unknownErrorMessage'', JStr ''Internal Server Error''),
                (''log'', JBool True), (''displayErrorReason'', JBool False)])
   \<and> (\<not> js_truthy (js_prop e ''statusCode'') \<longrightarrow>
        developmentErrorHandler (Thrown e) req =
          [LogError (''Internal Server Error. Reason: '' @ reason_text e) req (js_prop e ''stack''),
           Respond (JNum 500)
             (JObj [(''message'', JStr (''Internal Server Error. Reason: '' @ reason_text e))])]
      \<and> productionErrorHandler (Thrown e) req =
          [LogError (''Internal Server Error. Reason: '' @ reason_text e) req (js_prop e ''stack''),
           Respond (JNum 500) (JObj [(''message'', JStr ''Internal Server Error'')])])"
proof -
  have sel: "defaultErrorHandler (JStr name) =
      (if name = ''localhost'' then developmentErrorHandler else productionErrorHandler)"
    by (simp add: defaultErrorHandler_def)
  have dev: "developmentErrorHandler err req =
       resolveError err req
         (JObj [(''unknownErrorMessage'', JStr ''Internal Server Error''),
                (''log'', JBool True), (''displayErrorReason'', JBool True)])"
    unfolding developmentErrorHandler_def
    by (rule resolveError_reads_three_fields)
       (simp_all add: development_opts complete_opts js_prop_def)
  have prod: "productionErrorHandler err req =
       resolveError err req
         (JObj [(''unknownErrorMessage'', JStr ''Internal Server Error''),
                (''log'', JBool True), (''displayErrorReason'', JBool False)])"
    unfolding productionErrorHandler_def
    by (rule resolveError_reads_three_fields)
       (simp_all add: production_opts complete_opts js_prop_def)
  have run: "developmentErrorHandler (Thrown e) req =
          [LogError (''Internal Server Error. Reason: '' @ reason_text e) req (js_prop e ''stack''),
           Respond (JNum 500)
             (JObj [(''message'', JStr (''Internal Server Error. Reason: '' @ reason_text e))])]
      \<and> productionErrorHandler (Thrown e) req =
          [LogError (''Internal Server Error. Reason: '' @ reason_text e) req (js_prop e ''stack''),
           Respond (JNum 500) (JObj [(''message'', JStr ''Internal Server Error'')])]"
    if "\<not> js_truthy (js_prop e ''statusCode'')"
    using that
    by (simp add: developmentErrorHandler_def productionErrorHandler_def
          resolveError_unclassified generic_message_def development_opts production_opts
          js_prop_def)
  from sel dev prod run show ?thesis by blast
qed

theorem defaultErrorHandler_selects_profile_witness:
  "defaultErrorHandler (JStr ''localhost'') (Thrown [(''message'', JStr ''ECONNREFUSED'')]) [] =
     [LogError ''Internal Server Error. Reason: ECONNREFUSED'' [] JUndefined,
      Respond (JNum 500)
        (JObj [(''message'', JStr ''Internal Server Error. Reason: ECONNREFUSED'')])]
   \<and> defaultErrorHandler (JStr ''production'') (Thrown [(''message'', JStr ''ECONNREFUSED'')]) [] =
     [LogError ''Internal Server Error. Reason: ECONNREFUSED'' [] JUndefined,
      Respond (JNum 500) (JObj [(''message'', JStr ''Internal Server Error'')])]"
  using defaultErrorHandler_selects_profile
          [of "''localhost''" "Thrown []" "[]" "[(''message'', JStr ''ECONNREFUSED'')]"]
        defaultErrorHandler_selects_profile
          [of "''production''" "Thrown []" "[]" "[(''message'', JStr ''ECONNREFUSED'')]"]
  by (simp add: js_prop_def reason_text_def)

text \<open>
  C6 as first stated, with local and development contexts selecting the verbose profile,
  fails for the environment name \<^verbatim>\<open>development\<close>: the comparison is with \<^verbatim>\<open>localhost\<close> only,
  so the terse profile is selected and the response omits the reason that the verbose
  profile would give.
\<close>

theorem development_name_selects_terse_counterexample:
  "defaultErrorHandler (JStr ''development'') (Thrown [(''message'', JStr ''ECONNREFUSED'')]) [] =
     [LogError ''Internal Server Error. Reason: ECONNREFUSED'' [] JUndefined,
      Respond (JNum 500) (JObj [(''message'', JStr ''Internal Server Error'')])]
   \<and> defaultErrorHandler (JStr ''development'') (Thrown [(''message'', JStr ''ECONNREFUSED'')]) [] \<noteq>
       developmentErrorHandler (Thrown [(''message'', JStr ''ECONNREFUSED'')]) []"
  by (simp add: defaultErrorHandler_def developmentErrorHandler_def productionErrorHandler_def
        resolveError_unclassified generic_message_def reason_text_def
        development_opts production_opts js_prop_def)

text \<open>
  C7. The three options of \<^verbatim>\<open>resolveError\<close> are defaulted one by one. With a missing,
  \<^verbatim>\<open>null\<close> or otherwise falsy options argument, \<^verbatim>\<open>resolveError\<close> behaves as with
  \<^verbatim>\<open>unknownErrorMessage = "Internal Server Error"\<close>, \<^verbatim>\<open>log = false\<close> and
  \<^verbatim>\<open>displayErrorReason = false\<close>. With an options object (its keys distinct, as in every
  JavaScript object), each of the three fields in effect is the supplied value when the
  object has the field and the default when it omits it, and \<^verbatim>\<open>resolveError\<close> behaves as
  with the object in which the omitted fields are written out with their defaults.
\<close>

theorem resolveError_options_defaulted:
  "(\<not> js_truthy options \<longrightarrow>
      resolveError err req options =
        resolveError err req
          (JObj [(''unknownErrorMessage'', JStr ''Internal Server Error''),
                 (''log'', JBool False), (''displayErrorReason'', JBool False)]))
   \<and> (distinct (map fst kvs) \<longrightarrow>
        js_prop (effective_opts (JObj kvs)) ''unknownErrorMessage'' =
          supplied_or kvs ''unknownErrorMessage'' (JStr ''Internal Server Error'')
      \<and> js_prop (effective_opts (JObj kvs)) ''log'' = supplied_or kvs ''log'' (JBool False)
      \<and> js_prop (effective_opts (JObj kvs)) ''displayErrorReason'' =
          supplied_or kvs ''displayErrorReason'' (JBool False)
      \<and> resolveError err req (JObj kvs) =
          resolveError err req
            (JObj [(''unknownErrorMessage'',
                      supplied_or kvs ''unknownErrorMessage'' (JStr ''Internal Server Error'')),
                   (''log'', supplied_or kvs ''log'' (JBool False)),
                   (''displayErrorReason'',
                      supplied_or kvs ''displayErrorReason'' (JBool False))]))"
proof -
  have falsy: "resolveError err req options =
        resolveError err req
          (JObj [(''unknownErrorMessage'', JStr ''Internal Server Error''),
                 (''log'', JBool False), (''displayErrorReason'', JBool False)])"
    if "\<not> js_truthy options"
    by (rule resolveError_reads_three_fields)
       (simp_all add: effective_opts_falsy [OF that] complete_opts default_opts_def)
  have fields: "js_prop (effective_opts (JObj kvs)) ''unknownErrorMessage'' =
          supplied_or kvs ''unknownErrorMessage'' (JStr ''Internal Server Error'')
      \<and> js_prop (effective_opts (JObj kvs)) ''log'' = supplied_or kvs ''log'' (JBool False)
      \<and> js_prop (effective_opts (JObj kvs)) ''displayErrorReason'' =
          supplied_or kvs ''displayErrorReason'' (JBool False)"
    if "distinct (map fst kvs)"
    by (simp add: js_prop_effective_opts_object [OF that] js_prop_default_opts)
  have same: "resolveError err req (JObj kvs) =
          resolveError err req
            (JObj [(''unknownErrorMessage'',
                      supplied_or kvs ''unknownErrorMessage'' (JStr ''Internal Server Error'')),
                   (''log'', supplied_or kvs ''log'' (JBool False)),
                   (''displayErrorReason'',
                      supplied_or kvs ''displayErrorReason'' (JBool False))])"
    if "distinct (map fst kvs)"
    by (rule resolveError_reads_three_fields)
       (simp_all add: fields [OF that] complete_opts js_prop_complete)
  from falsy fields same show ?thesis by blast
qed

theorem resolveError_options_defaulted_witness:
  "resolveError (Thrown [(''message'', JStr ''ECONNREFUSED'')]) [] JNull =
     [Respond (JNum 500) (JObj [(''message'', JStr ''Internal Server Error'')])]
   \<and> resolveError (Thrown [(''message'', JStr ''ECONNREFUSED'')]) []
       (JObj [(''displayErrorReason'', JBool True), (''unknownErrorMessage'', JStr ''Oops'')]) =
     [Respond (JNum 500) (JObj [(''message'', JStr ''Oops. Reason: ECONNREFUSED'')])]"
proof -
  have f: "\<not> js_truthy JNull" by simp
  have d: "distinct (map fst [(''displayErrorReason'', JBool True),
                              (''unknownErrorMessage'', JStr ''Oops'')])" by simp
  have r: "resolveError (Thrown [(''message'', JStr ''ECONNREFUSED'')]) []
            (JObj [(''unknownErrorMessage'', m), (''log'', JBool False),
                   (''displayErrorReason'', dr)]) =
          [Respond (JNum 500)
             (JObj [(''message'',
                JStr (if js_truthy dr then js_toString m @ ''. Reason: ECONNREFUSED''
                      else js_toString m))])]" for m dr
    by (simp add: resolveError_unclassified complete_opts generic_message_def reason_text_def
          js_prop_def)
  from resolveError_options_defaulted
         [of JNull "Thrown [(''message'', JStr ''ECONNREFUSED'')]" "[]"
             "[(''displayErrorReason'', JBool True), (''unknownErrorMessage'', JStr ''Oops'')]"]
       f d
  show ?thesis by (simp add: r supplied_or_def)
qed

text \<open>
  C8. When the outbound call fails with \<open>err\<close>, \<^verbatim>\<open>defaultProxyRequest\<close> writes no response
  and no log entry: after the outbound call its only action is \<^verbatim>\<open>next(err)\<close>, with the very
  failure it caught. Whether the call fails or not, the outbound request is issued once,
  with the options built from the inbound request.
\<close>

theorem defaultProxyRequest_propagates_failure:
  "(baseRequest (defaultTargetOptions req u) = Inl err \<longrightarrow>
      defaultProxyRequest baseRequest u req = [Outbound (defaultTargetOptions req u), Next err]
    \<and> responses (defaultProxyRequest baseRequest u req) = []
    \<and> log_entries (defaultProxyRequest baseRequest u req) = []
    \<and> passed_to_next (defaultProxyRequest baseRequest u req) = [err])
   \<and> outbound_calls (defaultProxyRequest baseRequest u req) = [defaultTargetOptions req u]"
  by (simp add: defaultProxyRequest_def Let_def split: sum.splits)

theorem defaultProxyRequest_propagates_failure_witness:
  "defaultProxyRequest (\<lambda>opts. Inl (Thrown [(''message'', JStr ''ECONNREFUSED'')]))
     JUndefined [(''method'', JStr ''GET''), (''originalUrl'', JStr ''/tags'')] =
     [Outbound \<lparr>http_method = JStr ''GET'', uri = JStr ''/tags'', headers = JUndefined,
                body = JUndefined, qs = JUndefined\<rparr>,
      Next (Thrown [(''message'', JStr ''ECONNREFUSED'')])]"
  using defaultProxyRequest_propagates_failure
    [of "\<lambda>opts. Inl (Thrown [(''message'', JStr ''ECONNREFUSED'')])"
        "[(''method'', JStr ''GET''), (''originalUrl'', JStr ''/tags'')]" JUndefined
        "Thrown [(''message'', JStr ''ECONNREFUSED'')]"]
  by (simp add: defaultTargetOptions_def js_or_def js_prop_def)

text \<open>
  C9. A failure that is not a domain error, has a truthy \<^verbatim>\<open>statusCode\<close> and has no
  \<^verbatim>\<open>error\<close> property still takes the upstream branch: \<^verbatim>\<open>resolveError\<close> responds with that
  status code and the body \<^verbatim>\<open>undefined\<close>, and it records no log entry and builds no
  \<^verbatim>\<open>{message: ...}\<close> body, as the unclassified branch would.
\<close>

theorem resolveError_upstream_without_payload:
  assumes "js_truthy (js_prop e ''statusCode'')" and "map_of e ''error'' = None"
  shows "resolveError (Thrown e) req options = [Respond (js_prop e ''statusCode'') JUndefined]
       \<and> log_entries (resolveError (Thrown e) req options) = []"
  using assms by (simp add: resolveError_upstream js_prop_def)

theorem resolveError_upstream_without_payload_witness:
  "resolveError (Thrown [(''statusCode'', JNum 502), (''message'', JStr ''Bad Gateway'')]) []
     (JObj [(''log'', JBool True), (''displayErrorReason'', JBool True)]) =
     [Respond (JNum 502) JUndefined]"
  using resolveError_upstream_without_payload
    [of "[(''statusCode'', JNum 502), (''message'', JStr ''Bad Gateway'')]" "[]"
        "JObj [(''log'', JBool True), (''displayErrorReason'', JBool True)]"]
  by (simp add: js_prop_def)

text \<open>
  C10. \<^verbatim>\<open>resolveError\<close> classifies by the truthiness of \<^verbatim>\<open>statusCode\<close>: for a failure that
  is not a domain error and whose \<^verbatim>\<open>statusCode\<close> is absent, \<^verbatim>\<open>null\<close>, the number 0 or any
  other falsy value, the one response written is the unclassified one, with status 500
  and a \<^verbatim>\<open>{message: ...}\<close> body, although the property exists in the case of 0.
\<close>

theorem resolveError_classifies_by_truthiness:
  assumes "map_of e ''statusCode'' = None \<or> js_prop e ''statusCode'' = JNull
         \<or> js_prop e ''statusCode'' = JNum 0 \<or> \<not> js_truthy (js_prop e ''statusCode'')"
  shows "responses (resolveError (Thrown e) req options) =
           [(JNum 500,
             JObj [(''message'',
               JStr (if js_truthy (js_prop (effective_opts options) ''displayErrorReason'')
                     then generic_message options @ ''. Reason: '' @ reason_text e
                     else generic_message options))])]"
proof -
  from assms have "\<not> js_truthy (js_prop e ''statusCode'')"
    by (auto simp: js_prop_def)
  then show ?thesis
    by (simp add: resolveError_unclassified)
qed

theorem resolveError_classifies_by_truthiness_witness:
  "responses (resolveError
     (Thrown [(''statusCode'', JNum 0), (''error'', JObj [(''code'', JStr ''X'')]),
              (''message'', JStr ''boom'')]) [] JUndefined) =
     [(JNum 500, JObj [(''message'', JStr ''Internal Server Error'')])]"
  using resolveError_classifies_by_truthiness
    [of "[(''statusCode'', JNum 0), (''error'', JObj [(''code'', JStr ''X'')]),
          (''message'', JStr ''boom'')]" "[]" JUndefined]
  by (simp add: js_prop_def effective_opts_falsy default_opts_def generic_message_def)

end
